theory Spec2Isabelle
  imports Complex_Main "HOL-Library.Option_ord"
begin

section \<open>Data model\<close>

text \<open>
  The service keeps a SQLite cache of guild data fetched from a remote API. Two variants
  of the server are in the repository: \<^verbatim>\<open>src/unnamed/part_000\<close> (the later one, with
  the level sweeper) and \<^verbatim>\<open>src/index.js\<close> (with the \<^verbatim>\<open>/unguilded\<close> endpoint). Where a
  function differs between the two, the model of the \<^verbatim>\<open>index.js\<close> text carries the
  suffix \<open>_index\<close>; everything else is shared by both files.

  Tables are association lists in row order, keyed by their primary key. The table
  \<^verbatim>\<open>players_no_guild\<close> is created by \<^verbatim>\<open>index.js\<close> only; \<^verbatim>\<open>part_000\<close> reads and writes
  it all the same, so it runs on a database that already has it. Nullable
  columns are options. JavaScript numbers that hold timestamps and counters are
  \<open>int\<close>; experience values and levels are \<open>rat\<close>, the division \<^verbatim>\<open>xp / 100\<close> taken
  exactly.
\<close>

type_synonym uuid = string
type_synonym guild_id = string

record guild_row =
  g_name :: string
  g_tag :: string
  g_last_scan :: "int option"
  avg_sb_level :: "rat option"

record member_row =
  m_guild_id :: guild_id
  m_rank :: string
  m_last_scan :: "int option"
  highest_sb_level :: "rat option"
  level_last_updated :: "int option"

record player_row =
  p_name :: "string option"
  p_last_scan :: "int option"

record unguilded_row =
  u_name :: "string option"
  u_last_scanned :: "int option"

text \<open>
  \<open>players_no_guild_has_name\<close> records whether the deployed \<^verbatim>\<open>players_no_guild\<close> table
  has a \<^verbatim>\<open>name\<close> column. The \<^verbatim>\<open>CREATE TABLE IF NOT EXISTS\<close> of \<^verbatim>\<open>index.js\<close> declares
  only \<^verbatim>\<open>uuid\<close> and \<^verbatim>\<open>last_scan\<close>, and keeps whatever table is already there.
\<close>

record database =
  guilds :: "(guild_id \<times> guild_row) list"
  members :: "(uuid \<times> member_row) list"
  players_no_guild :: "(uuid \<times> player_row) list"
  players_no_guild_has_name :: bool
  unguilded_players :: "(uuid \<times> unguilded_row) list"

record stats_rec =
  totalGuildsTracked :: int
  guildsAddedTimestamps :: "int list"
  hypixelApiRequestTimestamps :: "int list"
  dbGuildRequestsTimestamps :: "int list"

text \<open>
  Outbound requests are an effect of the program; \<open>http_requests\<close> logs every
  \<^verbatim>\<open>axios.get\<close> that is issued, in order. \<open>queue\<close> holds the tasks handed to
  \<^verbatim>\<open>queue.add\<close> that the single worker has not started yet; every task in the source
  is \<^verbatim>\<open>() => scanPlayerGuild(cleanUUID)\<close>, so a task is the identifier it scans.
\<close>

datatype request = GuildRequest uuid | ProfilesRequest uuid

record world =
  db :: database
  stats :: stats_rec
  queue :: "uuid list"
  http_requests :: "request list"

datatype error = AxiosError string | SqliteError string | ReferenceError string

text \<open>Payloads of the remote API.\<close>

record api_member =
  am_uuid :: string
  am_rank :: string

record api_guild =
  ag_id :: guild_id
  ag_name :: string
  ag_tag :: "string option"
  ag_members :: "api_member list"

record guild_body =
  gb_success :: bool
  gb_guild :: "api_guild option"

text \<open>
  The outcome of one \<^verbatim>\<open>await axios.get(url)\<close>: the promise rejects (no response, or a
  status outside 2xx) or resolves with the parsed body.
\<close>

datatype 'a axios = Rejected string | Resolved 'a

section \<open>Store primitives\<close>

fun upsert :: "'k \<Rightarrow> 'v \<Rightarrow> ('v \<Rightarrow> 'v) \<Rightarrow> ('k \<times> 'v) list \<Rightarrow> ('k \<times> 'v) list" where
  "upsert k ins upd [] = [(k, ins)]"
| "upsert k ins upd ((k', v) # rows) =
     (if k' = k then (k', upd v) # rows else (k', v) # upsert k ins upd rows)"

definition delete_row :: "'k \<Rightarrow> ('k \<times> 'v) list \<Rightarrow> ('k \<times> 'v) list" where
  "delete_row k rows = filter (\<lambda>r. fst r \<noteq> k) rows"

definition strip_hyphens :: "string \<Rightarrow> string" where
  "strip_hyphens s = filter (\<lambda>c. c \<noteq> CHR ''-'') s"

definition now :: "int \<Rightarrow> int" where
  "now date_now = date_now div 1000"

definition SEVEN_DAYS :: int where
  "SEVEN_DAYS = 60 * 60"

definition SEVEN_DAYS_index :: int where
  "SEVEN_DAYS_index = 7 * 24 * 60 * 60"

definition push_api_request :: "int \<Rightarrow> world \<Rightarrow> world" where
  "push_api_request t w =
     w\<lparr>stats := (stats w)\<lparr>hypixelApiRequestTimestamps :=
          hypixelApiRequestTimestamps (stats w) @ [t]\<rparr>\<rparr>"

definition log_request :: "request \<Rightarrow> world \<Rightarrow> world" where
  "log_request r w = w\<lparr>http_requests := http_requests w @ [r]\<rparr>"

section \<open>Remote fetcher: guild lookup\<close>

text \<open>
  \<^verbatim>\<open>fetchGuildByUUID\<close>: \<open>res\<close> is the outcome of the GET and \<open>t\<close> the reading of
  \<^verbatim>\<open>Date.now()\<close> pushed onto the request timestamps. The push is the statement after
  the \<^verbatim>\<open>await\<close>, so a rejected GET leaves the function before it.
\<close>

definition fetchGuildByUUID ::
  "guild_body axios \<Rightarrow> int \<Rightarrow> uuid \<Rightarrow> world \<Rightarrow> (error + api_guild option) \<times> world" where
  "fetchGuildByUUID res t uuid w =
     (let w1 = log_request (GuildRequest uuid) w in
      case res of
        Rejected msg \<Rightarrow> (Inl (AxiosError msg), w1)
      | Resolved d \<Rightarrow>
          (let w2 = push_api_request t w1 in
           if gb_success d \<and> gb_guild d \<noteq> None then (Inr (gb_guild d), w2)
           else (Inr None, w2)))"

section \<open>Guild upsert\<close>

text \<open>
  The readings and callback errors \<^verbatim>\<open>upsertGuild\<close> meets, in source order: the clock at
  \<^verbatim>\<open>lastScan\<close>, the error of the guild statement, the clock at \<^verbatim>\<open>memberLastScan\<close>, the
  clock pushed onto \<^verbatim>\<open>guildsAddedTimestamps\<close>, the error of \<^verbatim>\<open>finalize\<close>. The member
  statements are run without a callback.
\<close>

record upsert_env =
  ue_lastScan :: int
  ue_guild_err :: "string option"
  ue_memberLastScan :: int
  ue_added :: int
  ue_finalize_err :: "string option"

definition upsert_guild_row :: "api_guild \<Rightarrow> int \<Rightarrow> database \<Rightarrow> database" where
  "upsert_guild_row guild lastScan d =
     (let tg = (case ag_tag guild of None \<Rightarrow> '''' | Some s \<Rightarrow> s) in
      d\<lparr>guilds := upsert (ag_id guild)
           \<lparr>g_name = ag_name guild, g_tag = tg, g_last_scan = Some lastScan,
            avg_sb_level = None\<rparr>
           (\<lambda>r. r\<lparr>g_name := ag_name guild, g_tag := tg, g_last_scan := Some lastScan\<rparr>)
           (guilds d)\<rparr>)"

definition upsert_member_row :: "guild_id \<Rightarrow> int \<Rightarrow> api_member \<Rightarrow> database \<Rightarrow> database" where
  "upsert_member_row gid memberLastScan member d =
     d\<lparr>members := upsert (strip_hyphens (am_uuid member))
          \<lparr>m_guild_id = gid, m_rank = am_rank member, m_last_scan = Some memberLastScan,
           highest_sb_level = None, level_last_updated = None\<rparr>
          (\<lambda>r. r\<lparr>m_guild_id := gid, m_rank := am_rank member,
                 m_last_scan := Some memberLastScan\<rparr>)
          (members d)\<rparr>"

definition count_guild_added :: "int \<Rightarrow> stats_rec \<Rightarrow> stats_rec" where
  "count_guild_added t s =
     s\<lparr>totalGuildsTracked := totalGuildsTracked s + 1,
       guildsAddedTimestamps := guildsAddedTimestamps s @ [t]\<rparr>"

definition upsertGuild :: "upsert_env \<Rightarrow> api_guild \<Rightarrow> world \<Rightarrow> (error + unit) \<times> world" where
  "upsertGuild env guild w =
     (case ue_guild_err env of
        Some e \<Rightarrow> (Inl (SqliteError e), w)
      | None \<Rightarrow>
          (let d1 = upsert_guild_row guild (now (ue_lastScan env)) (db w);
               d2 = fold (upsert_member_row (ag_id guild) (now (ue_memberLastScan env)))
                      (ag_members guild) d1;
               w2 = w\<lparr>db := d2, stats := count_guild_added (ue_added env) (stats w)\<rparr>
           in case ue_finalize_err env of
                Some e \<Rightarrow> (Inl (SqliteError e), w2)
              | None \<Rightarrow> (Inr (), w2)))"

section \<open>Statistics endpoint\<close>

record stats_data =
  sd_totalGuildsTracked :: int
  sd_hypixelApiRequestsLast5m :: nat
  sd_guildsAddedInLast60s :: nat
  sd_playersTracked :: nat

text \<open>
  \<^verbatim>\<open>GET /stats\<close> of \<^verbatim>\<open>part_000\<close>: \<open>t\<close> is \<^verbatim>\<open>Date.now()\<close>, \<open>err\<close> the error of the count
  query.
\<close>

definition get_stats :: "int \<Rightarrow> string option \<Rightarrow> world \<Rightarrow> (nat \<times> string) + stats_data" where
  "get_stats t err w =
     (case err of
        Some e \<Rightarrow> Inl (500, ''Database error'')
      | None \<Rightarrow> Inr
          \<lparr>sd_totalGuildsTracked = totalGuildsTracked (stats w),
           sd_hypixelApiRequestsLast5m =
             length (filter (\<lambda>ts. t - ts < 5 * 60 * 1000) (hypixelApiRequestTimestamps (stats w))),
           sd_guildsAddedInLast60s =
             length (filter (\<lambda>ts. t - ts < 60 * 1000) (guildsAddedTimestamps (stats w))),
           sd_playersTracked = length (remdups (map fst (members (db w))))\<rparr>)"

section \<open>Scanning one player\<close>

text \<open>
  \<^verbatim>\<open>removePlayerFromOldGuild\<close>: \<open>select_err\<close> and \<open>delete_err\<close> are the errors handed to
  the callbacks of the \<^verbatim>\<open>SELECT\<close> and of the \<^verbatim>\<open>DELETE\<close>.
\<close>

definition removePlayerFromOldGuild ::
  "string option \<Rightarrow> string option \<Rightarrow> uuid \<Rightarrow> guild_id \<Rightarrow> world \<Rightarrow> (error + bool) \<times> world" where
  "removePlayerFromOldGuild select_err delete_err uuid currentGuildId w =
     (case select_err of
        Some e \<Rightarrow> (Inl (SqliteError e), w)
      | None \<Rightarrow>
          (case map_of (members (db w)) uuid of
             None \<Rightarrow> (Inr False, w)
           | Some row \<Rightarrow>
               if m_guild_id row \<noteq> currentGuildId then
                 (case delete_err of
                    Some e \<Rightarrow> (Inl (SqliteError e), w)
                  | None \<Rightarrow>
                      (Inr True, w\<lparr>db := (db w)\<lparr>members := delete_row uuid (members (db w))\<rparr>\<rparr>))
               else (Inr False, w)))"

text \<open>
  What one run of \<^verbatim>\<open>scanPlayerGuild\<close> reads from outside: the outcome of the GET, the
  clock at the counter push, the clock of the no-guild statement, the callback errors of
  \<^verbatim>\<open>removePlayerFromOldGuild\<close>, and the readings of \<^verbatim>\<open>upsertGuild\<close>.
\<close>

record scan_env =
  se_http :: "guild_body axios"
  se_api_time :: int
  se_noguild_time :: int
  se_select_err :: "string option"
  se_delete_err :: "string option"
  se_upsert :: upsert_env

text \<open>The line the scan writes to the console: the only result a caller could see.\<close>

datatype scan_outcome = NotInGuild | GuildUpdated guild_id | ScanError error

definition set_players_no_guild :: "(uuid \<times> player_row) list \<Rightarrow> world \<Rightarrow> world" where
  "set_players_no_guild rows w = w\<lparr>db := (db w)\<lparr>players_no_guild := rows\<rparr>\<rparr>"

text \<open>
  \<^verbatim>\<open>scanPlayerGuild\<close> of \<^verbatim>\<open>part_000\<close>. The \<^verbatim>\<open>try\<close> block ends at the first rejected
  \<^verbatim>\<open>await\<close>; the \<^verbatim>\<open>catch\<close> logs the message and returns, so the function always
  returns with the world as the statements before the failure left it. The two
  statements on \<^verbatim>\<open>players_no_guild\<close> are run without a callback.
\<close>

definition scanPlayerGuild :: "scan_env \<Rightarrow> uuid \<Rightarrow> world \<Rightarrow> scan_outcome \<times> world" where
  "scanPlayerGuild env uuid w =
     (case fetchGuildByUUID (se_http env) (se_api_time env) uuid w of
        (Inl e, w1) \<Rightarrow> (ScanError e, w1)
      | (Inr None, w1) \<Rightarrow>
          (NotInGuild,
           set_players_no_guild
             (upsert uuid \<lparr>p_name = None, p_last_scan = Some (now (se_noguild_time env))\<rparr>
                (\<lambda>r. r\<lparr>p_last_scan := Some (now (se_noguild_time env))\<rparr>)
                (players_no_guild (db w1))) w1)
      | (Inr (Some guild), w1) \<Rightarrow>
          (let w2 = set_players_no_guild (delete_row uuid (players_no_guild (db w1))) w1 in
           case removePlayerFromOldGuild (se_select_err env) (se_delete_err env)
                  uuid (ag_id guild) w2 of
             (Inl e, w3) \<Rightarrow> (ScanError e, w3)
           | (Inr removed, w3) \<Rightarrow>
               (case upsertGuild (se_upsert env) guild w3 of
                  (Inl e, w4) \<Rightarrow> (ScanError e, w4)
                | (Inr u, w4) \<Rightarrow> (GuildUpdated (ag_id guild), w4))))"

text \<open>
  \<^verbatim>\<open>scanPlayerGuild(uuid, name)\<close> of \<^verbatim>\<open>index.js\<close>. Its no-guild statement names a
  \<^verbatim>\<open>name\<close> column: on a table without that column SQLite rejects the statement and
  nothing is written. The statement has no callback, and the model lets the scan
  return as it does when the statement is accepted.
\<close>

definition scanPlayerGuild_index ::
  "scan_env \<Rightarrow> uuid \<Rightarrow> string option \<Rightarrow> world \<Rightarrow> scan_outcome \<times> world" where
  "scanPlayerGuild_index env uuid name w =
     (case fetchGuildByUUID (se_http env) (se_api_time env) uuid w of
        (Inl e, w1) \<Rightarrow> (ScanError e, w1)
      | (Inr None, w1) \<Rightarrow>
          (let nm = (case name of None \<Rightarrow> [] | Some n \<Rightarrow> n) in
           (NotInGuild,
            if players_no_guild_has_name (db w1) then
              set_players_no_guild
                (upsert uuid \<lparr>p_name = Some nm, p_last_scan = Some (now (se_noguild_time env))\<rparr>
                   (\<lambda>r. r\<lparr>p_name := Some nm, p_last_scan := Some (now (se_noguild_time env))\<rparr>)
                   (players_no_guild (db w1))) w1
            else w1))
      | (Inr (Some guild), w1) \<Rightarrow>
          (let w2 = set_players_no_guild (delete_row uuid (players_no_guild (db w1))) w1 in
           case removePlayerFromOldGuild (se_select_err env) (se_delete_err env)
                  uuid (ag_id guild) w2 of
             (Inl e, w3) \<Rightarrow> (ScanError e, w3)
           | (Inr removed, w3) \<Rightarrow>
               (case upsertGuild (se_upsert env) guild w3 of
                  (Inl e, w4) \<Rightarrow> (ScanError e, w4)
                | (Inr u, w4) \<Rightarrow> (GuildUpdated (ag_id guild), w4))))"

section \<open>The scan queue\<close>

text \<open>
  The queue is a \<^verbatim>\<open>PQueue\<close> with concurrency 1. \<open>enqueue\<close> is \<^verbatim>\<open>queue.add\<close>;
  \<open>queue_run_next\<close> is the worker starting the oldest pending task and running it to
  its end. When the worker starts a task is the library's business and is not modelled.
\<close>

definition enqueue :: "uuid \<Rightarrow> world \<Rightarrow> world" where
  "enqueue uuid w = w\<lparr>queue := queue w @ [uuid]\<rparr>"

definition queue_run_next :: "scan_env \<Rightarrow> world \<Rightarrow> scan_outcome option \<times> world" where
  "queue_run_next env w =
     (case queue w of
        [] \<Rightarrow> (None, w)
      | uuid # pending \<Rightarrow>
          (case scanPlayerGuild env uuid (w\<lparr>queue := pending\<rparr>) of
             (out, w') \<Rightarrow> (Some out, w')))"

definition queue_run_next_index :: "scan_env \<Rightarrow> world \<Rightarrow> scan_outcome option \<times> world" where
  "queue_run_next_index env w =
     (case queue w of
        [] \<Rightarrow> (None, w)
      | uuid # pending \<Rightarrow>
          (case scanPlayerGuild_index env uuid None (w\<lparr>queue := pending\<rparr>) of
             (out, w') \<Rightarrow> (Some out, w')))"

section \<open>The player endpoint\<close>

datatype reply = ErrorReply nat string | MessageReply string

record post_env =
  pe_now :: int
  pe_member_err :: "string option"
  pe_player_err :: "string option"
  pe_insert_err :: "string option"

text \<open>
  The staleness test \<^verbatim>\<open>!row.last_scan || now() - row.last_scan > SEVEN_DAYS\<close>: a
  \<^verbatim>\<open>NULL\<close> and a zero are both falsy.
\<close>

definition needs_scan :: "int \<Rightarrow> int \<Rightarrow> int option \<Rightarrow> bool" where
  "needs_scan ttl t last_scan =
     (case last_scan of None \<Rightarrow> True | Some l \<Rightarrow> l = 0 \<or> ttl < now t - l)"

text \<open>
  \<^verbatim>\<open>POST /player\<close>; \<open>body\<close> is the \<^verbatim>\<open>uuid\<close> field of the request body, \<open>ttl\<close> the
  constant \<^verbatim>\<open>SEVEN_DAYS\<close> of the file (the handler's text is the same in both files).
\<close>

definition post_player :: "int \<Rightarrow> post_env \<Rightarrow> string option \<Rightarrow> world \<Rightarrow> reply \<times> world" where
  "post_player ttl env body w =
     (case body of
        None \<Rightarrow> (ErrorReply 400 ''Missing uuid in request body.'', w)
      | Some uuid \<Rightarrow>
          if uuid = [] then (ErrorReply 400 ''Missing uuid in request body.'', w)
          else
            (let cleanUUID = strip_hyphens uuid in
             case pe_member_err env of
               Some e \<Rightarrow> (ErrorReply 500 ''Database error.'', w)
             | None \<Rightarrow>
                 (case map_of (members (db w)) cleanUUID of
                    Some member \<Rightarrow>
                      if needs_scan ttl (pe_now env) (m_last_scan member) then
                        (MessageReply (''Queued guild scan for guild '' @ m_guild_id member),
                         enqueue cleanUUID w)
                      else (MessageReply ''Guild recently scanned, no update needed.'', w)
                  | None \<Rightarrow>
                      (case pe_player_err env of
                         Some e \<Rightarrow> (ErrorReply 500 ''Database error.'', w)
                       | None \<Rightarrow>
                           (case map_of (players_no_guild (db w)) cleanUUID of
                              Some player \<Rightarrow>
                                if needs_scan ttl (pe_now env) (p_last_scan player) then
                                  (MessageReply (''Queued player scan for '' @ cleanUUID),
                                   enqueue cleanUUID w)
                                else
                                  (MessageReply ''Player recently scanned, no update needed.'', w)
                            | None \<Rightarrow>
                                (case pe_insert_err env of
                                   Some e \<Rightarrow> (ErrorReply 500 ''Database insert error.'', w)
                                 | None \<Rightarrow>
                                     (MessageReply ''New player added and queued for scan.'',
                                      enqueue cleanUUID
                                        (set_players_no_guild
                                           (players_no_guild (db w) @
                                              [(cleanUUID, \<lparr>p_name = None, p_last_scan = Some 0\<rparr>)])
                                           w))))))))"

section \<open>The unguilded endpoint\<close>

text \<open>\<^verbatim>\<open>GET /unguilded\<close> of \<^verbatim>\<open>index.js\<close>: every row of \<^verbatim>\<open>unguilded_players\<close>.\<close>

definition get_unguilded :: "string option \<Rightarrow> world \<Rightarrow> (nat \<times> string) + (uuid \<times> unguilded_row) list" where
  "get_unguilded err w =
     (case err of
        Some e \<Rightarrow> Inl (500, e)
      | None \<Rightarrow> Inr (unguilded_players (db w)))"

section \<open>Remote fetcher: highest level\<close>

text \<open>
  The body of the profiles endpoint, as far as \<^verbatim>\<open>fetchHighestSBLevel\<close> reads it. Every
  link of \<^verbatim>\<open>profile?.members?.[uuid]?.leveling?.experience\<close> may be missing.
\<close>

record sb_leveling =
  experience :: "rat option"

record sb_member =
  leveling :: "sb_leveling option"

record sb_profile =
  pr_members :: "(uuid \<times> sb_member) list option"

record profiles_body =
  pb_success :: bool
  pb_profiles :: "sb_profile option list option"

definition profile_experience :: "uuid \<Rightarrow> sb_profile option \<Rightarrow> rat option" where
  "profile_experience uuid profile =
     Option.bind profile (\<lambda>p.
       Option.bind (pr_members p) (\<lambda>ms.
         Option.bind (map_of ms uuid) (\<lambda>m.
           Option.bind (leveling m) experience)))"

text \<open>One turn of the loop over the profiles; a zero experience is falsy.\<close>

definition highest_step :: "uuid \<Rightarrow> sb_profile option \<Rightarrow> rat \<Rightarrow> rat" where
  "highest_step uuid profile highestLevel =
     (case profile_experience uuid profile of
        None \<Rightarrow> highestLevel
      | Some xp \<Rightarrow>
          if xp \<noteq> 0 then
            (let level = xp / 100 in
             if level > highestLevel then level else highestLevel)
          else highestLevel)"

text \<open>
  \<^verbatim>\<open>fetchHighestSBLevel\<close>: the whole body is inside \<^verbatim>\<open>try\<close>, and the \<^verbatim>\<open>catch\<close> returns
  \<^verbatim>\<open>null\<close>. An empty array of profiles is truthy in JavaScript.
\<close>

definition fetchHighestSBLevel ::
  "profiles_body axios \<Rightarrow> int \<Rightarrow> uuid \<Rightarrow> world \<Rightarrow> rat option \<times> world" where
  "fetchHighestSBLevel res t uuid w =
     (let w1 = log_request (ProfilesRequest uuid) w in
      case res of
        Rejected msg \<Rightarrow> (None, w1)
      | Resolved d \<Rightarrow>
          (let w2 = push_api_request t w1 in
           if \<not> pb_success d then (None, w2)
           else
             (case pb_profiles d of
                None \<Rightarrow> (None, w2)
              | Some profiles \<Rightarrow> (Some (fold (highest_step uuid) profiles 0), w2))))"

section \<open>The periodic sweeper\<close>

record level_env =
  le_nowTime :: int
  le_select_err :: "string option"
  le_http :: "profiles_body axios"
  le_api_time :: int

definition recently_updated :: "int \<Rightarrow> member_row option \<Rightarrow> bool" where
  "recently_updated nowTime row =
     (case row of
        None \<Rightarrow> False
      | Some r \<Rightarrow>
          (case level_last_updated r of
             None \<Rightarrow> False
           | Some l \<Rightarrow> l \<noteq> 0 \<and> nowTime - l < 604800000))"

definition set_level :: "uuid \<Rightarrow> rat \<Rightarrow> int \<Rightarrow> world \<Rightarrow> world" where
  "set_level uuid level nowTime w =
     w\<lparr>db := (db w)\<lparr>members :=
          map (\<lambda>(k, r). if k = uuid
                 then (k, r\<lparr>highest_sb_level := Some level, level_last_updated := Some nowTime\<rparr>)
                 else (k, r))
              (members (db w))\<rparr>\<rparr>"

definition updateMemberLevel :: "level_env \<Rightarrow> uuid \<Rightarrow> world \<Rightarrow> (error + unit) \<times> world" where
  "updateMemberLevel env uuid w =
     (case le_select_err env of
        Some e \<Rightarrow> (Inl (SqliteError e), w)
      | None \<Rightarrow>
          if recently_updated (le_nowTime env) (map_of (members (db w)) uuid) then (Inr (), w)
          else
            (case fetchHighestSBLevel (le_http env) (le_api_time env) uuid w of
               (None, w1) \<Rightarrow> (Inr (), w1)
             | (Some level, w1) \<Rightarrow> (Inr (), set_level uuid level (le_nowTime env) w1)))"

text \<open>
  \<^verbatim>\<open>recalcGuildAverage\<close> is called in the loop of \<^verbatim>\<open>processGuildLevels\<close> and declared
  nowhere: neither source file defines it, and neither loads another module of the
  repository. Evaluating the undeclared identifier raises a \<^verbatim>\<open>ReferenceError\<close> before
  anything is computed or written.
\<close>

definition recalcGuildAverage :: "guild_id \<Rightarrow> world \<Rightarrow> (error + unit) \<times> world" where
  "recalcGuildAverage gid w = (Inl (ReferenceError ''recalcGuildAverage is not defined''), w)"

text \<open>
  The loop over the selected rows. \<open>envs\<close> gives, for each member, what its
  \<^verbatim>\<open>updateMemberLevel\<close> reads from outside. An exception leaves the loop: the promise of
  the \<^verbatim>\<open>async\<close> callback rejects and nothing handles it. The pause of one second after
  each member is not modelled.
\<close>

fun sweep_rows :: "(uuid \<Rightarrow> level_env) \<Rightarrow> (uuid \<times> guild_id) list \<Rightarrow> world \<Rightarrow> error option \<times> world" where
  "sweep_rows envs [] w = (None, w)"
| "sweep_rows envs ((uuid, gid) # rows) w =
     (case updateMemberLevel (envs uuid) uuid w of
        (Inl e, w1) \<Rightarrow> (Some e, w1)
      | (Inr u, w1) \<Rightarrow>
          (case recalcGuildAverage gid w1 of
             (Inl e, w2) \<Rightarrow> (Some e, w2)
           | (Inr u', w2) \<Rightarrow> sweep_rows envs rows w2))"

text \<open>
  The batch: members by ascending \<^verbatim>\<open>level_last_updated\<close>, \<^verbatim>\<open>NULL\<close> first, at most 60.
  The sort is stable; SQL leaves the order of ties open.
\<close>

definition select_batch :: "world \<Rightarrow> (uuid \<times> guild_id) list" where
  "select_batch w =
     map (\<lambda>(k, r). (k, m_guild_id r))
       (take 60 (sort_key (\<lambda>(k, r). level_last_updated r) (members (db w))))"

definition processGuildLevels ::
  "string option \<Rightarrow> (uuid \<Rightarrow> level_env) \<Rightarrow> world \<Rightarrow> error option \<times> world" where
  "processGuildLevels select_err envs w =
     (case select_err of
        Some e \<Rightarrow> (None, w)
      | None \<Rightarrow> sweep_rows envs (select_batch w) w)"

section \<open>Reference behaviour and concrete worlds\<close>

text \<open>
  The levels \<^verbatim>\<open>fetchHighestSBLevel\<close> compares: the nonzero experience values the
  profiles hold for the player, each divided by 100.
\<close>

definition counted_levels :: "uuid \<Rightarrow> sb_profile option list \<Rightarrow> rat list" where
  "counted_levels uuid profiles =
     map (\<lambda>xp. xp / 100)
       (filter (\<lambda>xp. xp \<noteq> 0) (List.map_filter (profile_experience uuid) profiles))"

text \<open>A response reports no profiles when the field is missing or the array is empty.\<close>

definition reports_no_profiles :: "profiles_body \<Rightarrow> bool" where
  "reports_no_profiles d = (case pb_profiles d of None \<Rightarrow> True | Some ps \<Rightarrow> ps = [])"

definition is_profiles_request :: "request \<Rightarrow> bool" where
  "is_profiles_request r = (case r of ProfilesRequest u \<Rightarrow> True | GuildRequest u \<Rightarrow> False)"

text \<open>
  The world right after start-up on an empty database file: the counters as the source
  initialises them, nothing queued, nothing requested.
\<close>

definition fresh_world :: world where
  "fresh_world =
     \<lparr>db = \<lparr>guilds = [], members = [], players_no_guild = [],
            players_no_guild_has_name = False, unguilded_players = []\<rparr>,
      stats = \<lparr>totalGuildsTracked = 0, guildsAddedTimestamps = [],
               hypixelApiRequestTimestamps = [], dbGuildRequestsTimestamps = []\<rparr>,
      queue = [], http_requests = []\<rparr>"

definition player_u :: uuid where
  "player_u = ''069a79f444e94726a5befca90e38aaf5''"

definition guild_a :: api_guild where
  "guild_a =
     \<lparr>ag_id = ''52e57a1c0cf2e250d1cd00f8'', ag_name = ''Alpha'', ag_tag = Some ''ALP'',
      ag_members = [\<lparr>am_uuid = ''069a79f444e94726a5befca90e38aaf5'', am_rank = ''Member''\<rparr>]\<rparr>"

definition no_errors :: upsert_env where
  "no_errors =
     \<lparr>ue_lastScan = 1700000000000, ue_guild_err = None, ue_memberLastScan = 1700000000000,
      ue_added = 1700000000000, ue_finalize_err = None\<rparr>"

text \<open>A scan at 1700000000 s whose GET answers with guild \<open>guild_a\<close>.\<close>

definition scan_finds_guild :: scan_env where
  "scan_finds_guild =
     \<lparr>se_http = Resolved \<lparr>gb_success = True, gb_guild = Some guild_a\<rparr>,
      se_api_time = 1700000000000, se_noguild_time = 1700000000000,
      se_select_err = None, se_delete_err = None, se_upsert = no_errors\<rparr>"

text \<open>A scan two hours later whose GET answers that the player has no guild.\<close>

definition scan_finds_none :: scan_env where
  "scan_finds_none =
     \<lparr>se_http = Resolved \<lparr>gb_success = True, gb_guild = None\<rparr>,
      se_api_time = 1700007200000, se_noguild_time = 1700007200000,
      se_select_err = None, se_delete_err = None, se_upsert = no_errors\<rparr>"

text \<open>A scan that finds \<open>guild_a\<close> while the guild statement fails.\<close>

definition scan_store_fails :: scan_env where
  "scan_store_fails =
     scan_finds_guild\<lparr>se_upsert := no_errors\<lparr>ue_guild_err := Some ''SQLITE_BUSY''\<rparr>\<rparr>"

text \<open>A scan whose GET resolves with a body that reports no success.\<close>

definition scan_unsuccessful_body :: scan_env where
  "scan_unsuccessful_body =
     scan_finds_guild\<lparr>se_http := Resolved \<lparr>gb_success = False, gb_guild = None\<rparr>\<rparr>"

definition request_at :: "int \<Rightarrow> post_env" where
  "request_at t =
     \<lparr>pe_now = t, pe_member_err = None, pe_player_err = None, pe_insert_err = None\<rparr>"

text \<open>
  \<open>guilded_world\<close>: \<open>player_u\<close> was submitted and scanned into \<open>guild_a\<close> at
  1700000000 s. \<open>placeholder_world\<close>: \<open>player_u\<close> was submitted and waits for the scan.
\<close>

definition placeholder_world :: world where
  "placeholder_world =
     fresh_world\<lparr>db := (db fresh_world)\<lparr>players_no_guild :=
                    [(player_u, \<lparr>p_name = None, p_last_scan = Some 0\<rparr>)]\<rparr>,
                 queue := [player_u]\<rparr>"

definition guilded_world :: world where
  "guilded_world =
     \<lparr>db = \<lparr>guilds = [(''52e57a1c0cf2e250d1cd00f8'',
                       \<lparr>g_name = ''Alpha'', g_tag = ''ALP'', g_last_scan = Some 1700000000,
                        avg_sb_level = None\<rparr>)],
            members = [(player_u,
                        \<lparr>m_guild_id = ''52e57a1c0cf2e250d1cd00f8'', m_rank = ''Member'',
                         m_last_scan = Some 1700000000, highest_sb_level = None,
                         level_last_updated = None\<rparr>)],
            players_no_guild = [], players_no_guild_has_name = False,
            unguilded_players = []\<rparr>,
      stats = \<lparr>totalGuildsTracked = 1, guildsAddedTimestamps = [1700000000000],
               hypixelApiRequestTimestamps = [1700000000000], dbGuildRequestsTimestamps = []\<rparr>,
      queue = [], http_requests = [GuildRequest player_u]\<rparr>"

text \<open>What the sweeper reads for every member: one profile with 350 experience.\<close>

definition level_response :: "uuid \<Rightarrow> level_env" where
  "level_response u =
     \<lparr>le_nowTime = 1700000060000, le_select_err = None,
      le_http = Resolved
        \<lparr>pb_success = True,
         pb_profiles = Some [Some \<lparr>pr_members = Some [(u, \<lparr>leveling = Some \<lparr>experience = Some 350\<rparr>\<rparr>)]\<rparr>]\<rparr>,
      le_api_time = 1700000060500\<rparr>"

text \<open>A second upsert of the same guild, thirty seconds after the first.\<close>

definition rescan :: upsert_env where
  "rescan =
     \<lparr>ue_lastScan = 1700000030000, ue_guild_err = None, ue_memberLastScan = 1700000030000,
      ue_added = 1700000030000, ue_finalize_err = None\<rparr>"

text \<open>
  \<open>left_guild_world\<close>: two hours after \<open>guilded_world\<close> the player is submitted again,
  the member row is stale, the scan is queued and run, and the remote answers that the
  player has no guild.
\<close>

definition left_guild_world :: world where
  "left_guild_world =
     snd (queue_run_next scan_finds_none
            (snd (post_player SEVEN_DAYS (request_at 1700007200000) (Some player_u) guilded_world)))"

text \<open>\<open>placeholder_world\<close> on a database whose \<^verbatim>\<open>players_no_guild\<close> has a name column.\<close>

definition named_placeholder_world :: world where
  "named_placeholder_world =
     placeholder_world\<lparr>db := (db placeholder_world)\<lparr>players_no_guild_has_name := True\<rparr>\<rparr>"

section \<open>Evaluating the model\<close>

lemmas scan_defs =
  post_player_def queue_run_next_def scanPlayerGuild_def scanPlayerGuild_index_def
  fetchGuildByUUID_def removePlayerFromOldGuild_def upsertGuild_def
  upsert_guild_row_def upsert_member_row_def count_guild_added_def
  log_request_def push_api_request_def set_players_no_guild_def delete_row_def
  now_def needs_scan_def enqueue_def strip_hyphens_def Let_def

lemmas sweep_defs =
  processGuildLevels_def select_batch_def updateMemberLevel_def recalcGuildAverage_def
  fetchHighestSBLevel_def recently_updated_def set_level_def highest_step_def
  profile_experience_def log_request_def push_api_request_def Let_def

lemmas world_defs =
  fresh_world_def placeholder_world_def guilded_world_def player_u_def guild_a_def
  no_errors_def scan_finds_guild_def scan_finds_none_def request_at_def

text \<open>The concrete worlds are reached from the fresh one by the handlers themselves.\<close>

lemma placeholder_world_reached:
  "post_player SEVEN_DAYS (request_at 1700000000000) (Some player_u) fresh_world =
     (MessageReply ''New player added and queued for scan.'', placeholder_world)"
  by (simp add: scan_defs world_defs SEVEN_DAYS_def)

lemma guilded_world_reached:
  "queue_run_next scan_finds_guild placeholder_world =
     (Some (GuildUpdated (ag_id guild_a)), guilded_world)"
  by (simp add: scan_defs world_defs)

section \<open>Membership exclusivity\<close>

text \<open>
  The guild-found path of a scan clears the player's row in \<^verbatim>\<open>players_no_guild\<close>:
  after a scan that reports an updated guild, the scanned player is not unresolved.
\<close>

lemma delete_row_map_of: "map_of (delete_row k rows) k = None"
  by (induction rows) (auto simp: delete_row_def)

lemma upsertGuild_players_no_guild:
  "players_no_guild (db (snd (upsertGuild env guild w))) = players_no_guild (db w)"
proof -
  have m: "players_no_guild (fold (upsert_member_row gid ts) ms d) = players_no_guild d"
    for gid ts ms d
    by (induction ms arbitrary: d) (simp_all add: upsert_member_row_def)
  show ?thesis
    by (simp add: upsertGuild_def upsert_guild_row_def m Let_def split: option.splits)
qed

lemma removePlayerFromOldGuild_players_no_guild:
  "players_no_guild (db (snd (removePlayerFromOldGuild se de uuid gid w))) =
     players_no_guild (db w)"
  by (simp add: removePlayerFromOldGuild_def split: option.splits)

lemma upsertGuild_keeps_unresolved:
  "upsertGuild env guild w = (r, w') \<Longrightarrow> players_no_guild (db w') = players_no_guild (db w)"
  using upsertGuild_players_no_guild [of env guild w] by simp

lemma removePlayerFromOldGuild_keeps_unresolved:
  "removePlayerFromOldGuild se de uuid gid w = (r, w') \<Longrightarrow>
     players_no_guild (db w') = players_no_guild (db w)"
  using removePlayerFromOldGuild_players_no_guild [of se de uuid gid w] by simp

lemma scan_found_clears_unresolved:
  assumes "fst (scanPlayerGuild env uuid w) = GuildUpdated gid"
  shows "map_of (players_no_guild (db (snd (scanPlayerGuild env uuid w)))) uuid = None"
proof -
  have "players_no_guild (db (snd (scanPlayerGuild env uuid w))) =
          delete_row uuid (players_no_guild (db w))"
    using assms
    by (auto simp: scanPlayerGuild_def fetchGuildByUUID_def log_request_def
        push_api_request_def set_players_no_guild_def Let_def
        split: axios.splits prod.splits sum.splits option.splits if_splits
        dest!: upsertGuild_keeps_unresolved removePlayerFromOldGuild_keeps_unresolved)
  then show ?thesis by (simp add: delete_row_map_of)
qed

text \<open>
  The no-guild path writes the unresolved row and nothing else: whatever the world, the
  member table is as it was.
\<close>

lemma upsert_map_of:
  "map_of (upsert k ins upd rows) k = Some (case map_of rows k of None \<Rightarrow> ins | Some v \<Rightarrow> upd v)"
  by (induction rows) auto

lemma scan_absent_leaves_member_row:
  assumes "se_http env = Resolved d" and "\<not> (gb_success d \<and> gb_guild d \<noteq> None)"
  shows "fst (scanPlayerGuild env uuid w) = NotInGuild"
    and "members (db (snd (scanPlayerGuild env uuid w))) = members (db w)"
    and "map_of (players_no_guild (db (snd (scanPlayerGuild env uuid w)))) uuid \<noteq> None"
  using assms
  by (simp_all add: scanPlayerGuild_def fetchGuildByUUID_def log_request_def
      push_api_request_def set_players_no_guild_def upsert_map_of Let_def)

text \<open>
  C1. After a completed scan of a player, the player is in at most one of the member and
  unresolved tables; a scan that resolves to "no guild" upserts the unresolved row and
  removes the member row. Evaluated on \<open>guilded_world\<close>, where \<open>player_u\<close> is a member
  and the remote answers "no guild": the unresolved row is written, the member row is
  still there, and the player is in both tables.
\<close>

theorem scan_absent_keeps_member_row:
  "fst (scanPlayerGuild scan_finds_none player_u guilded_world) = NotInGuild \<and>
   map_of (members (db (snd (scanPlayerGuild scan_finds_none player_u guilded_world)))) player_u =
     Some \<lparr>m_guild_id = ''52e57a1c0cf2e250d1cd00f8'', m_rank = ''Member'',
           m_last_scan = Some 1700000000, highest_sb_level = None, level_last_updated = None\<rparr> \<and>
   map_of (players_no_guild (db (snd (scanPlayerGuild scan_finds_none player_u guilded_world))))
       player_u =
     Some \<lparr>p_name = None, p_last_scan = Some 1700007200\<rparr>"
  by (simp add: scan_defs world_defs)

section \<open>The API-call counter\<close>

text \<open>
  C3, as the code has it. An invocation of either fetcher whose GET resolves, with a
  payload or with a business-level absence, pushes exactly one timestamp onto the
  counter; an invocation whose GET is rejected pushes none.
\<close>

theorem api_counter_tracks_responses:
  "hypixelApiRequestTimestamps (stats (snd (fetchGuildByUUID (Resolved d) t uuid w))) =
     hypixelApiRequestTimestamps (stats w) @ [t] \<and>
   hypixelApiRequestTimestamps (stats (snd (fetchGuildByUUID (Rejected msg) t uuid w))) =
     hypixelApiRequestTimestamps (stats w) \<and>
   hypixelApiRequestTimestamps (stats (snd (fetchHighestSBLevel (Resolved b) t uuid w))) =
     hypixelApiRequestTimestamps (stats w) @ [t] \<and>
   hypixelApiRequestTimestamps (stats (snd (fetchHighestSBLevel (Rejected msg) t uuid w))) =
     hypixelApiRequestTimestamps (stats w)"
  by (simp add: fetchGuildByUUID_def fetchHighestSBLevel_def log_request_def
      push_api_request_def Let_def split: option.splits)

text \<open>
  C3 as stated, that a failed call is counted too, fails: on the fresh world a guild
  lookup answered with status 429 issues its request and leaves the counter empty.
\<close>

theorem rejected_fetch_is_not_counted:
  "http_requests (snd (fetchGuildByUUID (Rejected ''Request failed with status code 429'')
                         1700000000000 player_u fresh_world)) = [GuildRequest player_u] \<and>
   hypixelApiRequestTimestamps
       (stats (snd (fetchGuildByUUID (Rejected ''Request failed with status code 429'')
                      1700000000000 player_u fresh_world))) = [] \<and>
   length (hypixelApiRequestTimestamps
       (stats (snd (fetchGuildByUUID (Rejected ''Request failed with status code 429'')
                      1700000000000 player_u fresh_world)))) \<noteq>
     length (hypixelApiRequestTimestamps (stats fresh_world)) + 1"
  by (simp add: fetchGuildByUUID_def log_request_def fresh_world_def Let_def)

section \<open>The unguilded endpoint and the scan\<close>

text \<open>No scan writes the table that \<^verbatim>\<open>GET /unguilded\<close> reads.\<close>

lemma scan_index_leaves_unguilded_players:
  "unguilded_players (db (snd (scanPlayerGuild_index env uuid name w))) =
     unguilded_players (db w)"
proof -
  have m: "unguilded_players (fold (upsert_member_row gid ts) ms d) = unguilded_players d"
    for gid ts ms d
    by (induction ms arbitrary: d) (simp_all add: upsert_member_row_def)
  show ?thesis
    by (simp add: scanPlayerGuild_index_def fetchGuildByUUID_def removePlayerFromOldGuild_def
        upsertGuild_def upsert_guild_row_def m log_request_def push_api_request_def
        set_players_no_guild_def Let_def
        split: option.splits axios.splits prod.splits sum.splits)
qed

text \<open>
  C4. After a queued scan resolves to "no guild", \<^verbatim>\<open>GET /unguilded\<close> includes the player.
  Evaluated in \<^verbatim>\<open>index.js\<close>: a new player is submitted on the fresh world, the queued scan
  finds no guild, and the endpoint answers with no rows, whether or not the deployed
  \<^verbatim>\<open>players_no_guild\<close> table accepts the scan's statement.
\<close>

theorem unguilded_endpoint_misses_scanned_player:
  "post_player SEVEN_DAYS_index (request_at 1700000000000) (Some player_u) fresh_world =
     (MessageReply ''New player added and queued for scan.'', placeholder_world) \<and>
   fst (queue_run_next_index scan_finds_none placeholder_world) = Some NotInGuild \<and>
   get_unguilded None (snd (queue_run_next_index scan_finds_none placeholder_world)) = Inr [] \<and>
   fst (queue_run_next_index scan_finds_none named_placeholder_world) = Some NotInGuild \<and>
   players_no_guild (db (snd (queue_run_next_index scan_finds_none named_placeholder_world))) =
     [(player_u, \<lparr>p_name = Some [], p_last_scan = Some 1700007200\<rparr>)] \<and>
   get_unguilded None (snd (queue_run_next_index scan_finds_none named_placeholder_world)) = Inr []"
  by (simp add: scan_defs world_defs queue_run_next_index_def SEVEN_DAYS_index_def
      named_placeholder_world_def get_unguilded_def)

section \<open>The sweeper and the queue\<close>

lemma updateMemberLevel_frame:
  "queue (snd (updateMemberLevel env uuid w)) = queue w \<and>
   guilds (db (snd (updateMemberLevel env uuid w))) = guilds (db w) \<and>
   (\<exists>rs. http_requests (snd (updateMemberLevel env uuid w)) = http_requests w @ rs \<and>
         list_all is_profiles_request rs)"
  by (simp add: updateMemberLevel_def fetchHighestSBLevel_def set_level_def log_request_def
      push_api_request_def is_profiles_request_def Let_def
      split: option.splits axios.splits prod.splits)

lemma sweep_rows_frame:
  "queue (snd (sweep_rows envs rows w)) = queue w \<and>
   guilds (db (snd (sweep_rows envs rows w))) = guilds (db w) \<and>
   (\<exists>rs. http_requests (snd (sweep_rows envs rows w)) = http_requests w @ rs \<and>
         list_all is_profiles_request rs)"
proof (induction envs rows w rule: sweep_rows.induct)
  case (1 envs w)
  show ?case by simp
next
  case (2 envs uuid gid rows w)
  obtain r1 w1 where u: "updateMemberLevel (envs uuid) uuid w = (r1, w1)"
    by (cases "updateMemberLevel (envs uuid) uuid w")
  from updateMemberLevel_frame [of "envs uuid" uuid w] u
  obtain rs1 where f1: "queue w1 = queue w" "guilds (db w1) = guilds (db w)"
      "http_requests w1 = http_requests w @ rs1" "list_all is_profiles_request rs1"
    by auto
  show ?case
  proof (cases r1)
    case (Inl e)
    with u f1 show ?thesis by simp
  next
    case r1: (Inr x)
    obtain r2 w2 where c: "recalcGuildAverage gid w1 = (r2, w2)"
      by (cases "recalcGuildAverage gid w1")
    then have w2: "w2 = w1"
      by (auto simp: recalcGuildAverage_def)
    show ?thesis
    proof (cases r2)
      case (Inl e)
      with u c r1 f1 w2 show ?thesis by simp
    next
      case (Inr y)
      have ih: "queue (snd (sweep_rows envs rows w2)) = queue w2 \<and>
          guilds (db (snd (sweep_rows envs rows w2))) = guilds (db w2) \<and>
          (\<exists>rs. http_requests (snd (sweep_rows envs rows w2)) = http_requests w2 @ rs \<and>
                list_all is_profiles_request rs)"
        using "2.IH" u c r1 Inr by simp
      then obtain rs2 where f2: "queue (snd (sweep_rows envs rows w2)) = queue w2"
          "guilds (db (snd (sweep_rows envs rows w2))) = guilds (db w2)"
          "http_requests (snd (sweep_rows envs rows w2)) = http_requests w2 @ rs2"
          "list_all is_profiles_request rs2"
        by auto
      have "list_all is_profiles_request (rs1 @ rs2)"
        using f1(4) f2(4) by simp
      with u c r1 Inr f1 f2 w2 show ?thesis by simp
    qed
  qed
qed

lemma scanPlayerGuild_requests:
  "http_requests (snd (scanPlayerGuild env uuid w)) = http_requests w @ [GuildRequest uuid]"
  by (simp add: scanPlayerGuild_def fetchGuildByUUID_def removePlayerFromOldGuild_def
      upsertGuild_def log_request_def push_api_request_def set_players_no_guild_def Let_def
      split: option.splits axios.splits prod.splits sum.splits)

text \<open>
  C5, as the code has it. The sweeper runs every level refresh itself and not as a task
  of the scan queue: a sweep leaves the queue as it found it, every request it adds to
  the log is a profiles request issued by the sweep, and a task of the queue issues the
  guild request of its scan and nothing else.
\<close>

theorem sweeper_fetches_outside_queue:
  "queue (snd (processGuildLevels select_err envs w)) = queue w \<and>
   take (length (http_requests w)) (http_requests (snd (processGuildLevels select_err envs w))) =
     http_requests w \<and>
   list_all is_profiles_request
     (drop (length (http_requests w)) (http_requests (snd (processGuildLevels select_err envs w)))) \<and>
   http_requests (snd (queue_run_next env w)) = http_requests w @ map GuildRequest (take 1 (queue w))"
proof -
  obtain rs where "queue (snd (sweep_rows envs (select_batch w) w)) = queue w"
      "http_requests (snd (sweep_rows envs (select_batch w) w)) = http_requests w @ rs"
      "list_all is_profiles_request rs"
    using sweep_rows_frame [of envs "select_batch w" w] by auto
  then have sweep: "queue (snd (processGuildLevels select_err envs w)) = queue w \<and>
      take (length (http_requests w)) (http_requests (snd (processGuildLevels select_err envs w))) =
        http_requests w \<and>
      list_all is_profiles_request
        (drop (length (http_requests w)) (http_requests (snd (processGuildLevels select_err envs w))))"
    by (cases select_err) (simp_all add: processGuildLevels_def)
  have "http_requests (snd (queue_run_next env w)) =
          http_requests w @ map GuildRequest (take 1 (queue w))"
  proof (cases "queue w")
    case Nil
    then show ?thesis by (simp add: queue_run_next_def)
  next
    case (Cons u pending)
    then show ?thesis
      using scanPlayerGuild_requests [of env u "w\<lparr>queue := pending\<rparr>"]
      by (auto simp: queue_run_next_def split: prod.splits)
  qed
  with sweep show ?thesis by simp
qed

text \<open>
  C5 as stated, that the sweeper never invokes the fetcher outside a queue task, fails:
  on \<open>guilded_world\<close> the queue is empty before and after the sweep, and the sweep has
  issued a profiles request.
\<close>

theorem sweeper_request_with_empty_queue:
  "queue guilded_world = [] \<and>
   http_requests guilded_world = [GuildRequest player_u] \<and>
   http_requests (snd (processGuildLevels None level_response guilded_world)) =
     [GuildRequest player_u, ProfilesRequest player_u] \<and>
   http_requests (snd (processGuildLevels None level_response guilded_world)) \<noteq>
     http_requests guilded_world \<and>
   queue (snd (processGuildLevels None level_response guilded_world)) = []"
  by (simp add: sweep_defs world_defs level_response_def)

section \<open>The guild average\<close>

text \<open>A sweep never writes a guild row, whatever it reads.\<close>

lemma sweeper_never_writes_guilds:
  "guilds (db (snd (processGuildLevels select_err envs w))) = guilds (db w)"
  using sweep_rows_frame [of envs "select_batch w" w]
  by (cases select_err) (simp_all add: processGuildLevels_def)

text \<open>
  C6. After each member of its batch the sweeper recomputes and persists the average
  level of the member's guild. Evaluated on \<open>guilded_world\<close>, whose one member gets the
  level 3.5: the call of \<^verbatim>\<open>recalcGuildAverage\<close> raises, the sweep ends there, and the
  guild's \<^verbatim>\<open>avg_sb_level\<close> is still \<^verbatim>\<open>NULL\<close>.
\<close>

theorem sweep_aborts_before_average:
  "fst (processGuildLevels None level_response guilded_world) =
     Some (ReferenceError ''recalcGuildAverage is not defined'') \<and>
   map_of (members (db (snd (processGuildLevels None level_response guilded_world)))) player_u =
     Some \<lparr>m_guild_id = ''52e57a1c0cf2e250d1cd00f8'', m_rank = ''Member'',
           m_last_scan = Some 1700000000, highest_sb_level = Some (7 / 2),
           level_last_updated = Some 1700000060000\<rparr> \<and>
   guilds (db (snd (processGuildLevels None level_response guilded_world))) =
     [(''52e57a1c0cf2e250d1cd00f8'',
       \<lparr>g_name = ''Alpha'', g_tag = ''ALP'', g_last_scan = Some 1700000000,
        avg_sb_level = None\<rparr>)]"
  by (simp add: sweep_defs world_defs level_response_def)

section \<open>Failed scans\<close>

text \<open>
  C7, as the code has it. A scan whose fetch is rejected is caught at the scan boundary
  with the error as its outcome, and leaves every table, with every last-scan
  timestamp, and every counter as it was; in both files.
\<close>

theorem failed_fetch_leaves_cache_unchanged:
  "fst (scanPlayerGuild (env\<lparr>se_http := Rejected msg\<rparr>) uuid w) = ScanError (AxiosError msg) \<and>
   db (snd (scanPlayerGuild (env\<lparr>se_http := Rejected msg\<rparr>) uuid w)) = db w \<and>
   stats (snd (scanPlayerGuild (env\<lparr>se_http := Rejected msg\<rparr>) uuid w)) = stats w \<and>
   fst (scanPlayerGuild_index (env\<lparr>se_http := Rejected msg\<rparr>) uuid name w) =
     ScanError (AxiosError msg) \<and>
   db (snd (scanPlayerGuild_index (env\<lparr>se_http := Rejected msg\<rparr>) uuid name w)) = db w \<and>
   stats (snd (scanPlayerGuild_index (env\<lparr>se_http := Rejected msg\<rparr>) uuid name w)) = stats w"
  by (simp add: scanPlayerGuild_def scanPlayerGuild_index_def fetchGuildByUUID_def
      log_request_def Let_def)

text \<open>
  C7 as stated, for a failure of any step and for a non-success fetch, fails twice on
  \<open>placeholder_world\<close>. A scan finds a guild, deletes the player's unresolved row, and
  then the guild statement fails: the scan ends with that error and the row is gone. A
  scan whose GET resolves with a body reporting no success ends as "no guild" and
  stamps the player's unresolved row.
\<close>

theorem store_failure_keeps_earlier_writes:
  "fst (scanPlayerGuild scan_store_fails player_u placeholder_world) =
     ScanError (SqliteError ''SQLITE_BUSY'') \<and>
   players_no_guild (db placeholder_world) =
     [(player_u, \<lparr>p_name = None, p_last_scan = Some 0\<rparr>)] \<and>
   players_no_guild (db (snd (scanPlayerGuild scan_store_fails player_u placeholder_world))) = [] \<and>
   db (snd (scanPlayerGuild scan_store_fails player_u placeholder_world)) \<noteq> db placeholder_world \<and>
   fst (scanPlayerGuild scan_unsuccessful_body player_u placeholder_world) = NotInGuild \<and>
   players_no_guild (db (snd (scanPlayerGuild scan_unsuccessful_body player_u placeholder_world))) =
     [(player_u, \<lparr>p_name = None, p_last_scan = Some 1700000000\<rparr>)] \<and>
   db (snd (scanPlayerGuild scan_unsuccessful_body player_u placeholder_world)) \<noteq>
     db placeholder_world"
  by (simp add: scan_defs world_defs scan_store_fails_def scan_unsuccessful_body_def)

section \<open>Resubmitting a recently scanned player\<close>

text \<open>
  What the handler does by its own lookups: a member row scanned within the window, or,
  when there is no member row, an unresolved row scanned within the window, makes the
  request a no-op.
\<close>

lemma post_player_recent_member_noop:
  assumes "body \<noteq> []"
    and "map_of (members (db w)) (strip_hyphens body) = Some member"
    and "m_last_scan member = Some l" and "l \<noteq> 0" and "now (pe_now env) - l \<le> ttl"
    and "pe_member_err env = None"
  shows "post_player ttl env (Some body) w =
           (MessageReply ''Guild recently scanned, no update needed.'', w)"
  using assms by (simp add: post_player_def needs_scan_def Let_def)

lemma post_player_recent_unresolved_noop:
  assumes "body \<noteq> []"
    and "map_of (members (db w)) (strip_hyphens body) = None"
    and "map_of (players_no_guild (db w)) (strip_hyphens body) = Some player"
    and "p_last_scan player = Some l" and "l \<noteq> 0" and "now (pe_now env) - l \<le> ttl"
    and "pe_member_err env = None" and "pe_player_err env = None"
  shows "post_player ttl env (Some body) w =
           (MessageReply ''Player recently scanned, no update needed.'', w)"
  using assms by (simp add: post_player_def needs_scan_def Let_def)

text \<open>
  C8. A request for a player who has a member or an unresolved row with a nonzero
  last-scan timestamp within the window enqueues nothing and changes nothing. Evaluated
  on \<open>left_guild_world\<close>: the player's unresolved row was written sixty seconds before
  the request, the stale member row is found first, and the request queues a scan.
\<close>

theorem fresh_unresolved_row_is_rescanned:
  "fst (post_player SEVEN_DAYS (request_at 1700007200000) (Some player_u) guilded_world) =
     MessageReply ''Queued guild scan for guild 52e57a1c0cf2e250d1cd00f8'' \<and>
   map_of (players_no_guild (db left_guild_world)) player_u =
     Some \<lparr>p_name = None, p_last_scan = Some 1700007200\<rparr> \<and>
   now 1700007260000 - 1700007200 \<le> SEVEN_DAYS \<and>
   queue left_guild_world = [] \<and>
   post_player SEVEN_DAYS (request_at 1700007260000) (Some player_u) left_guild_world =
     (MessageReply ''Queued guild scan for guild 52e57a1c0cf2e250d1cd00f8'',
      left_guild_world\<lparr>queue := [player_u]\<rparr>)"
  by (simp add: scan_defs world_defs SEVEN_DAYS_def left_guild_world_def)

section \<open>The highest level\<close>

lemma fold_highest_step:
  "fold (highest_step uuid) profiles acc = Max (set (acc # counted_levels uuid profiles))"
proof (induction profiles arbitrary: acc)
  case Nil
  show ?case by (simp add: counted_levels_def)
next
  case (Cons p ps)
  show ?case
  proof (cases "profile_experience uuid p")
    case None
    then show ?thesis
      using Cons.IH [of acc]
      by (simp add: highest_step_def counted_levels_def)
  next
    case (Some xp)
    show ?thesis
    proof (cases "xp = 0")
      case True
      with Some show ?thesis
        using Cons.IH [of acc]
        by (simp add: highest_step_def counted_levels_def)
    next
      case False
      have cl: "counted_levels uuid (p # ps) = xp / 100 # counted_levels uuid ps"
        using Some False by (simp add: counted_levels_def)
      have hs: "highest_step uuid p acc = max acc (xp / 100)"
        using Some False by (simp add: highest_step_def Let_def max_def)
      have "fold (highest_step uuid) (p # ps) acc =
              Max (set (max acc (xp / 100) # counted_levels uuid ps))"
        using Cons.IH [of "max acc (xp / 100)"] hs by simp
      also have "\<dots> = Max (set (acc # counted_levels uuid (p # ps)))"
        by (cases "counted_levels uuid ps = []") (simp_all add: cl max.assoc)
      finally show ?thesis .
    qed
  qed
qed

text \<open>
  C9, as the code has it. \<^verbatim>\<open>fetchHighestSBLevel\<close> returns absent when the request is
  rejected, when the body reports no success, or when the body has no profiles field.
  For an array of profiles it returns the largest of 0 and the levels \<^verbatim>\<open>xp / 100\<close> of
  the profiles that hold a nonzero experience for the player: 0 for an empty array.
\<close>

theorem fetchHighestSBLevel_result:
  "fst (fetchHighestSBLevel (Rejected msg) t uuid w) = None \<and>
   fst (fetchHighestSBLevel (Resolved \<lparr>pb_success = False, pb_profiles = ps\<rparr>) t uuid w) = None \<and>
   fst (fetchHighestSBLevel (Resolved \<lparr>pb_success = True, pb_profiles = None\<rparr>) t uuid w) = None \<and>
   fst (fetchHighestSBLevel (Resolved \<lparr>pb_success = True, pb_profiles = Some profiles\<rparr>) t uuid w) =
     Some (Max (set (0 # counted_levels uuid profiles)))"
  by (simp add: fetchHighestSBLevel_def Let_def fold_highest_step)

text \<open>
  C9 as stated, absent whenever the response reports no profiles, fails: a successful
  response with an empty array of profiles gives the level 0.
\<close>

theorem empty_profiles_give_zero:
  "reports_no_profiles \<lparr>pb_success = True, pb_profiles = Some []\<rparr> \<and>
   fst (fetchHighestSBLevel (Resolved \<lparr>pb_success = True, pb_profiles = Some []\<rparr>)
          1700000060500 player_u guilded_world) = Some 0 \<and>
   fst (fetchHighestSBLevel (Resolved \<lparr>pb_success = True, pb_profiles = Some []\<rparr>)
          1700000060500 player_u guilded_world) \<noteq> None"
  by (simp add: reports_no_profiles_def fetchHighestSBLevel_def Let_def)

section \<open>Counting guild upserts\<close>

text \<open>
  C10. Every successful \<^verbatim>\<open>upsertGuild\<close> adds one to \<^verbatim>\<open>totalGuildsTracked\<close> and appends
  one timestamp to the guild-additions window, whether or not the guild row was there
  before; \<^verbatim>\<open>GET /stats\<close> reports these two counters, so they count upserts.
\<close>

theorem upsertGuild_counts_every_upsert:
  "upsertGuild env guild w = (Inr u, w') \<Longrightarrow>
     totalGuildsTracked (stats w') = totalGuildsTracked (stats w) + 1 \<and>
     guildsAddedTimestamps (stats w') = guildsAddedTimestamps (stats w) @ [ue_added env] \<and>
     (case get_stats t None w' of
        Inl e \<Rightarrow> False
      | Inr sd \<Rightarrow>
          sd_totalGuildsTracked sd = totalGuildsTracked (stats w) + 1 \<and>
          sd_guildsAddedInLast60s sd =
            length (filter (\<lambda>ts. t - ts < 60 * 1000)
                      (guildsAddedTimestamps (stats w) @ [ue_added env])))"
  by (auto simp: upsertGuild_def count_guild_added_def get_stats_def Let_def
      split: option.splits)

text \<open>
  C10 at a guild that is already cached: \<open>guild_a\<close> is upserted again on
  \<open>guilded_world\<close>. The guild table still has its one row, and the counter and the
  window both go from one to two.
\<close>

theorem upsertGuild_counts_every_upsert_witness:
  "upsertGuild rescan guild_a guilded_world =
     (Inr (), snd (upsertGuild rescan guild_a guilded_world)) \<and>
   map fst (guilds (db guilded_world)) = [ag_id guild_a] \<and>
   map fst (guilds (db (snd (upsertGuild rescan guild_a guilded_world)))) = [ag_id guild_a] \<and>
   totalGuildsTracked (stats guilded_world) = 1 \<and>
   totalGuildsTracked (stats (snd (upsertGuild rescan guild_a guilded_world))) = 2 \<and>
   guildsAddedTimestamps (stats (snd (upsertGuild rescan guild_a guilded_world))) =
     [1700000000000, 1700000030000] \<and>
   (case get_stats 1700000040000 None (snd (upsertGuild rescan guild_a guilded_world)) of
      Inl e \<Rightarrow> False
    | Inr sd \<Rightarrow> sd_totalGuildsTracked sd = 2 \<and> sd_guildsAddedInLast60s sd = 2)"
proof -
  have h: "upsertGuild rescan guild_a guilded_world =
             (Inr (), snd (upsertGuild rescan guild_a guilded_world))"
    by (simp add: scan_defs world_defs rescan_def)
  have before: "map fst (guilds (db guilded_world)) = [ag_id guild_a]"
      "totalGuildsTracked (stats guilded_world) = 1"
      "guildsAddedTimestamps (stats guilded_world) = [1700000000000]"
      "ue_added rescan = 1700000030000"
    by (simp_all add: guilded_world_def guild_a_def rescan_def)
  have rows: "map fst (guilds (db (snd (upsertGuild rescan guild_a guilded_world)))) =
                [ag_id guild_a]"
    by (simp add: scan_defs world_defs rescan_def)
  show ?thesis
    using upsertGuild_counts_every_upsert [OF h, of 1700000040000] h before rows
    by (simp add: get_stats_def)
qed

end
